theory Spec2Isabelle
  imports Main
begin

section \<open>Strings\<close>

text \<open>
  JavaScript strings are modelled as \<open>string\<close>, the list of the bytes of their UTF-8
  encoding: an ASCII character is one byte, and the two pictographs of the explanation lines
  are three and six bytes. A value that JavaScript reads as \<open>null\<close> or \<open>undefined\<close> is
  \<open>None\<close>.
\<close>

definition char_code :: "char \<Rightarrow> nat" where
  "char_code c = of_char c"

text \<open>
  \<open>String.prototype.toLowerCase\<close> on ASCII text: \<open>A\<close>..\<open>Z\<close> become \<open>a\<close>..\<open>z\<close>, every other
  character stays. The function of the language also folds the letters beyond ASCII, which
  the model leaves as they are: the model is the function of the language on the texts that
  \<open>ascii\<close> accepts, and a statement about the matching of arbitrary texts is made for
  those.
\<close>

definition lower_char :: "char \<Rightarrow> char" where
  "lower_char c = (if 65 \<le> char_code c \<and> char_code c \<le> 90 then char_of (char_code c + 32) else c)"

definition toLowerCase :: "string \<Rightarrow> string" where
  "toLowerCase s = map lower_char s"


text \<open>
  The \<open>length\<close> of a JavaScript string counts UTF-16 code units: one for a character of
  up to three UTF-8 bytes, two for a character of four bytes. A continuation byte
  (128 to 191) counts nothing, a leading byte from 240 on counts two.
\<close>

definition utf16_units :: "char \<Rightarrow> nat" where
  "utf16_units c =
    (if char_code c < 128 then 1
     else if char_code c < 192 then 0
     else if char_code c < 240 then 1
     else 2)"

definition js_length :: "string \<Rightarrow> nat" where
  "js_length s = sum_list (map utf16_units s)"

text \<open>\<open>String.prototype.startsWith\<close> and \<open>String.prototype.includes\<close>.\<close>

fun startsWith :: "string \<Rightarrow> string \<Rightarrow> bool" where
  "startsWith s [] = True"
| "startsWith [] (c # cs) = False"
| "startsWith (x # xs) (c # cs) = (x = c \<and> startsWith xs cs)"

fun includes_str :: "string \<Rightarrow> string \<Rightarrow> bool" where
  "includes_str [] t = (t = [])"
| "includes_str (x # xs) t = (startsWith (x # xs) t \<or> includes_str xs t)"

text \<open>\<open>Array.prototype.join\<close> on an array of strings.\<close>

fun join :: "string \<Rightarrow> string list \<Rightarrow> string" where
  "join sep [] = []"
| "join sep [x] = x"
| "join sep (x # y # ys) = x @ sep @ join sep (y # ys)"

text \<open>
  The decimal rendering of a non-negative integer, which is what a template literal
  produces for an array length.
\<close>

definition digit_char :: "nat \<Rightarrow> char" where
  "digit_char d = char_of (48 + d)"

fun decimal :: "nat \<Rightarrow> string" where
  "decimal n = (if n < 10 then [digit_char n] else decimal (n div 10) @ [digit_char (n mod 10)])"

declare decimal.simps [simp del]

definition is_digit :: "char \<Rightarrow> bool" where
  "is_digit c = (48 \<le> char_code c \<and> char_code c \<le> 57)"

definition is_letter :: "char \<Rightarrow> bool" where
  "is_letter c = ((97 \<le> char_code c \<and> char_code c \<le> 122) \<or> (65 \<le> char_code c \<and> char_code c \<le> 90))"

text \<open>
  \<open>parseInt\<close> on a non-empty string of decimal digits. JavaScript yields the nearest
  double, the model the exact number; both compare alike with the small constants the
  tiers use.
\<close>

definition parseInt :: "string \<Rightarrow> nat" where
  "parseInt ds = foldl (\<lambda>acc c. 10 * acc + (char_code c - 48)) 0 ds"

section \<open>Regular expressions\<close>

text \<open>
  Both regular expressions of the repository are sequences of character classes, each with
  a greedy quantifier: \<open>/(\d+)/\<close> and
  \<open>/[a-zA-Z0-9._%+-]+@[a-zA-Z0-9.-]+\.[a-zA-Z]{2,}/\<close>. A quantified class is its
  predicate, the least and the greatest number of repetitions (\<open>None\<close>: unbounded).
  Matching is the backtracking search of the language: each class first takes as many
  characters as it can and gives them back one at a time while the rest fails, and the
  start position moves right until some attempt succeeds.
\<close>

type_synonym quantified = "(char \<Rightarrow> bool) \<times> nat \<times> nat option"

fun first_match :: "(nat \<Rightarrow> string option) \<Rightarrow> nat list \<Rightarrow> string option" where
  "first_match f [] = None"
| "first_match f (k # ks) = (case f k of Some r \<Rightarrow> Some r | None \<Rightarrow> first_match f ks)"

primrec match_here :: "quantified list \<Rightarrow> string \<Rightarrow> string option" where
  "match_here [] = (\<lambda>s. Some [])"
| "match_here (q # qs) = (\<lambda>s.
     case q of (cls, lo, hi) \<Rightarrow>
       let n = length (takeWhile cls s);
           m = (case hi of None \<Rightarrow> n | Some h \<Rightarrow> min h n)
       in first_match (\<lambda>k. map_option ((@) (take k s)) (match_here qs (drop k s)))
            (rev [lo..<Suc m]))"

text \<open>\<open>String.prototype.match\<close> with a non-global expression: the text of the leftmost match.\<close>

definition regex_match :: "quantified list \<Rightarrow> string \<Rightarrow> string option" where
  "regex_match re s = first_match (\<lambda>i. match_here re (drop i s)) [0..<Suc (length s)]"

definition literal :: "char \<Rightarrow> quantified" where
  "literal c = ((\<lambda>x. x = c), 1, Some 1)"

definition digits_re :: "quantified list" where
  "digits_re = [(is_digit, 1, None)]"

definition email_local :: "char \<Rightarrow> bool" where
  "email_local c = (is_letter c \<or> is_digit c \<or> c \<in> set ''._%+-'')"

definition email_domain :: "char \<Rightarrow> bool" where
  "email_domain c = (is_letter c \<or> is_digit c \<or> c \<in> set ''.-'')"

definition email_re :: "quantified list" where
  "email_re = [(email_local, 1, None), literal (CHR ''@''), (email_domain, 1, None),
               literal (CHR ''.''), (is_letter, 2, None)]"

section \<open>Data model of the platform\<close>

text \<open>
  The parsed content of a CV, as \<open>extractCVContent\<close> writes it into the \<open>cv_content\<close>
  column. The fields the scoring reads may be missing.
\<close>

record cv =
  cv_name :: string
  cv_email :: string
  skills :: "string list option"
  experience :: "string option"
  education :: "string option"
  achievements :: "string list option"
  extractedAt :: string

text \<open>A row of table \<open>job_descriptions\<close>.\<close>

record job_description =
  jd_id :: nat
  jd_job_key :: string
  title :: string
  description :: string
  requirements :: "string list"
  department :: "string option"
  level :: "string option"
  salary_range :: "string option"
  location :: "string option"
  is_active :: bool

section \<open>Scoring one application\<close>

definition check_mark :: string where
  "check_mark = [CHR 0xE2, CHR 0x9C, CHR 0x93]"

definition warning_sign :: string where
  "warning_sign = [CHR 0xE2, CHR 0x9A, CHR 0xA0, CHR 0xEF, CHR 0xB8, CHR 0x8F]"

definition evaluateExperience :: "cv \<Rightarrow> job_description \<Rightarrow> int" where
  "evaluateExperience c jobDescription =
    (let yearsMatch = (case experience c of None \<Rightarrow> None | Some e \<Rightarrow> regex_match digits_re e);
         years = (case yearsMatch of Some ds \<Rightarrow> parseInt ds | None \<Rightarrow> 0)
     in if years \<ge> 6 then 25
        else if years \<ge> 4 then 20
        else if years \<ge> 2 then 15
        else 10)"

text \<open>The local variables of \<open>analyzeApplication\<close>.\<close>

record locals =
  totalScore :: int
  explanationPoints :: "string list"
  dimensionScores :: "string \<rightharpoonup> int"

text \<open>A template literal prints a missing value by its name.\<close>

definition template_string :: "string option \<Rightarrow> string" where
  "template_string v = (case v of Some s \<Rightarrow> s | None \<Rightarrow> ''undefined'')"

definition score_experience :: "cv \<Rightarrow> job_description \<Rightarrow> locals \<Rightarrow> locals" where
  "score_experience c jobDescription st =
    (let experienceScore = evaluateExperience c jobDescription;
         line = (if experienceScore \<ge> 20 then
                   check_mark @ '' Excellent relevant experience: '' @ template_string (experience c)
                     @ '' with strong background in required areas''
                 else if experienceScore \<ge> 15 then
                   check_mark @ '' Good experience level with some relevant background''
                 else warning_sign @ '' Limited relevant experience detected'')
     in st\<lparr>dimensionScores := (dimensionScores st)(''experience'' \<mapsto> experienceScore),
           totalScore := totalScore st + experienceScore,
           explanationPoints := explanationPoints st @ [line]\<rparr>)"

definition matchedSkills :: "cv \<Rightarrow> job_description \<Rightarrow> string list" where
  "matchedSkills c jobDescription =
    (let requiredSkills = requirements jobDescription;
         applicantSkills = (case skills c of Some xs \<Rightarrow> xs | None \<Rightarrow> [])
     in filter (\<lambda>req. list_ex (\<lambda>app. includes_str (toLowerCase app) (toLowerCase req)) applicantSkills)
          requiredSkills)"

definition score_skills :: "cv \<Rightarrow> job_description \<Rightarrow> locals \<Rightarrow> locals" where
  "score_skills c jobDescription st =
    (let matched = matchedSkills c jobDescription;
         skillsScore = min 40 (int (length matched) * 8);
         line = (if length matched > 0 then
                   check_mark @ '' '' @ decimal (length matched) @ '' matching skill(s): ''
                     @ join '', '' matched
                 else warning_sign @ '' No matching skills found'')
     in st\<lparr>dimensionScores := (dimensionScores st)(''skills'' \<mapsto> skillsScore),
           totalScore := totalScore st + skillsScore,
           explanationPoints := explanationPoints st @ [line]\<rparr>)"

definition education_includes :: "cv \<Rightarrow> string \<Rightarrow> bool" where
  "education_includes c word =
    (case education c of None \<Rightarrow> False | Some e \<Rightarrow> includes_str (toLowerCase e) word)"

definition score_education :: "cv \<Rightarrow> locals \<Rightarrow> locals" where
  "score_education c st =
    (let (educationScore, line) =
           (if education_includes c ''master'' then
              (15, check_mark @ '' Holds a Master's degree'')
            else if education_includes c ''bachelor'' then
              (10, check_mark @ '' Holds a Bachelor's degree'')
            else (0, warning_sign @ '' Education level not clearly specified''))
     in st\<lparr>explanationPoints := explanationPoints st @ [line],
           dimensionScores := (dimensionScores st)(''education'' \<mapsto> educationScore),
           totalScore := totalScore st + educationScore\<rparr>)"

definition score_achievements :: "cv \<Rightarrow> locals \<Rightarrow> locals" where
  "score_achievements c st =
    (let achs = (case achievements c of Some xs \<Rightarrow> xs | None \<Rightarrow> []);
         achievementsScore = min 20 (int (length achs) * 4);
         line = (if length achs > 0 then
                   check_mark @ '' '' @ decimal (length achs) @ '' notable achievement(s)''
                 else warning_sign @ '' No achievements mentioned'')
     in st\<lparr>dimensionScores := (dimensionScores st)(''achievements'' \<mapsto> achievementsScore),
           totalScore := totalScore st + achievementsScore,
           explanationPoints := explanationPoints st @ [line]\<rparr>)"

text \<open>
  The state of the local variables when \<open>analyzeApplication\<close> reaches its \<open>return\<close>: the
  four dimensions are scored in the order of the source.
\<close>

definition analyze_locals :: "cv \<Rightarrow> job_description \<Rightarrow> locals" where
  "analyze_locals c jobDescription =
    score_achievements c
      (score_education c
        (score_skills c jobDescription
          (score_experience c jobDescription
            \<lparr>totalScore = 0, explanationPoints = [], dimensionScores = Map.empty\<rparr>)))"

record analysis =
  score :: int
  explanation :: string

datatype js_error = TypeError

text \<open>
  \<open>analyzeApplication\<close> receives the \<open>cv_content\<close> column. The database driver hands a
  JSONB value over already parsed, so the branch that parses a string is not taken and the
  model starts from the parsed value. The column is nullable: on \<open>null\<close> the first property
  access, in \<open>evaluateExperience\<close>, throws a \<open>TypeError\<close>.
\<close>

definition analyzeApplication :: "cv option \<Rightarrow> job_description \<Rightarrow> js_error + analysis" where
  "analyzeApplication cvContent jobDescription =
    (case cvContent of
       None \<Rightarrow> Inl TypeError
     | Some c \<Rightarrow>
         let st = analyze_locals c jobDescription
         in Inr \<lparr>score = totalScore st,
                 explanation = join [CHR 0x0A] (explanationPoints st)\<rparr>)"

text \<open>
  The maximum of each dimension, as the section comments of \<open>analyzeApplication\<close> give it
  (25, 40, 15 and 20 points).
\<close>

definition weights :: "string \<rightharpoonup> int" where
  "weights = [''experience'' \<mapsto> 25, ''skills'' \<mapsto> 40, ''education'' \<mapsto> 15, ''achievements'' \<mapsto> 20]"

section \<open>The database\<close>

text \<open>A row of table \<open>applications\<close>; timestamps are numbers.\<close>

record application =
  app_id :: nat
  app_job_key :: "string option"
  email :: string
  phone :: string
  cover_letter :: "string option"
  file_name :: string
  file_size :: nat
  file_type :: string
  file_url :: "string option"
  cv_content :: "cv option"
  ai_score :: "int option"
  ai_explanation :: "string option"
  status :: "string option"
  anonymized_id :: string
  submitted_at :: nat
  reviewed_at :: "nat option"
  reviewed_by :: "nat option"

text \<open>A row of table \<open>audit_logs\<close>; \<open>details\<close> is a JSON object of strings.\<close>

record audit_log =
  user_id :: nat
  action :: string
  resource_type :: string
  resource_id :: "nat option"
  details :: "(string \<times> string) list"
  ip_address :: string

text \<open>
  A table is the list of its rows, in the order in which a query that asks for no order
  returns them.
\<close>

record database =
  job_descriptions :: "job_description list"
  applications :: "application list"
  audit_logs :: "audit_log list"

text \<open>\<open>SELECT * FROM job_descriptions WHERE job_key = $1\<close>\<close>

definition select_job :: "database \<Rightarrow> string \<Rightarrow> job_description list" where
  "select_job db k = filter (\<lambda>j. jd_job_key j = k) (job_descriptions db)"

text \<open>
  \<open>SELECT * FROM applications WHERE job_key = $1 AND status = 'pending' AND ai_score IS NULL\<close>
\<close>

definition pending_unscored :: "string \<Rightarrow> application \<Rightarrow> bool" where
  "pending_unscored k a = (app_job_key a = Some k \<and> status a = Some ''pending'' \<and> ai_score a = None)"

definition select_pending :: "database \<Rightarrow> string \<Rightarrow> application list" where
  "select_pending db k = filter (pending_unscored k) (applications db)"

text \<open>\<open>UPDATE applications SET ai_score = $1, ai_explanation = $2 WHERE id = $3\<close>\<close>

definition update_score :: "int \<Rightarrow> string \<Rightarrow> nat \<Rightarrow> database \<Rightarrow> database" where
  "update_score sc ex i db =
    db\<lparr>applications :=
         map (\<lambda>a. if app_id a = i then a\<lparr>ai_score := Some sc, ai_explanation := Some ex\<rparr> else a)
           (applications db)\<rparr>"

text \<open>
  \<open>INSERT INTO audit_logs ...\<close>. The function catches a failure of the insertion, logs a
  warning and writes no row; the insertion is taken to succeed, as the other queries are.
\<close>

definition logAuditEvent ::
  "nat \<Rightarrow> string \<Rightarrow> string \<Rightarrow> nat option \<Rightarrow> (string \<times> string) list \<Rightarrow> string \<Rightarrow> database \<Rightarrow> database" where
  "logAuditEvent userId act resourceType resourceId det ip db =
    db\<lparr>audit_logs := audit_logs db @
         [\<lparr>user_id = userId, action = act, resource_type = resourceType,
           resource_id = resourceId, details = det, ip_address = ip\<rparr>]\<rparr>"

section \<open>The ranking endpoint\<close>

text \<open>What the handler reads of the request: \<open>req.body.jobKey\<close>, \<open>req.user.userId\<close>, \<open>req.ip\<close>.\<close>

record request =
  jobKey :: "string option"
  userId :: nat
  ip :: string

text \<open>An entry of \<open>rankedApplications\<close>: \<open>{id, anonymized_id, score, explanation}\<close>.\<close>

record ranked_application =
  ranked_id :: nat
  ranked_anonymized_id :: string
  ranked_score :: int
  ranked_explanation :: string

text \<open>
  The response: \<open>res.status(code).json({error})\<close>, or
  \<open>res.json({success: true, rankedApplications, message})\<close>.
\<close>

datatype response =
  ErrorResponse (status_code: nat) (body_error: string)
| RankResponse (body_rankedApplications: "ranked_application list") (body_message: string)

text \<open>
  The loop over the selected rows. An exception of \<open>analyzeApplication\<close> leaves the loop for
  the handler's \<open>catch\<close>; the updates made before it stay, as no transaction surrounds them.
  The queries themselves are taken to succeed.
\<close>

fun score_all ::
  "job_description \<Rightarrow> application list \<Rightarrow> ranked_application list \<Rightarrow> database
     \<Rightarrow> (js_error + ranked_application list) \<times> database" where
  "score_all jobDescription [] rankedApplications db = (Inr rankedApplications, db)"
| "score_all jobDescription (app # apps) rankedApplications db =
    (case analyzeApplication (cv_content app) jobDescription of
       Inl err \<Rightarrow> (Inl err, db)
     | Inr an \<Rightarrow>
         score_all jobDescription apps
           (rankedApplications @
              [\<lparr>ranked_id = app_id app, ranked_anonymized_id = anonymized_id app,
                ranked_score = score an, ranked_explanation = explanation an\<rparr>])
           (update_score (score an) (explanation an) (app_id app) db))"

text \<open>
  \<open>rankedApplications.sort((a, b) => b.score - a.score)\<close>: \<open>Array.prototype.sort\<close> is stable,
  so it is the stable sort by decreasing score.
\<close>

definition sort_by_score :: "ranked_application list \<Rightarrow> ranked_application list" where
  "sort_by_score rs = sort_key (\<lambda>r. - ranked_score r) rs"

definition rank :: "request \<Rightarrow> database \<Rightarrow> response \<times> database" where
  "rank req db =
    (case jobKey req of
       None \<Rightarrow> (ErrorResponse 400 ''Job key is required'', db)
     | Some k \<Rightarrow>
         if k = [] then (ErrorResponse 400 ''Job key is required'', db)
         else
           (case select_job db k of
              [] \<Rightarrow> (ErrorResponse 404 ''Job not found'', db)
            | jobDescription # _ \<Rightarrow>
                let apps = select_pending db k
                in if length apps = 0 then
                     (ErrorResponse 400 ''No pending applications to rank'', db)
                   else
                     (case score_all jobDescription apps [] db of
                        (Inl err, db') \<Rightarrow> (ErrorResponse 500 ''Failed to rank applications'', db')
                      | (Inr rankedApplications, db') \<Rightarrow>
                          (RankResponse (sort_by_score rankedApplications)
                             (decimal (length apps) @ '' applications ranked successfully''),
                           logAuditEvent (userId req) ''AI_RANK'' ''applications'' None
                             [(''jobKey'', k), (''applicationsCount'', decimal (length apps))]
                             (ip req) db'))))"

text \<open>
  The row of an application once the loop has stored its analysis; nothing is stored for a
  row whose analysis throws.
\<close>

definition scored_row :: "job_description \<Rightarrow> application \<Rightarrow> application" where
  "scored_row jobDescription a =
    (case analyzeApplication (cv_content a) jobDescription of
       Inr an \<Rightarrow> a\<lparr>ai_score := Some (score an), ai_explanation := Some (explanation an)\<rparr>
     | Inl err \<Rightarrow> a)"

text \<open>
  The personally identifying data of an application: the contact columns, the cover
  letter, the names of the uploaded file, and the name and e-mail address inside the CV.
  \<open>redact\<close> blanks them.
\<close>

definition redact_cv :: "cv \<Rightarrow> cv" where
  "redact_cv c = c\<lparr>cv_name := [], cv_email := []\<rparr>"

definition redact :: "application \<Rightarrow> application" where
  "redact a = a\<lparr>email := [], phone := [], cover_letter := None, file_name := [],
                file_url := None, cv_content := map_option redact_cv (cv_content a)\<rparr>"

section \<open>The earlier ranking module, \<open>utils/rank.js\<close>\<close>

definition extractEmail :: "string \<Rightarrow> string" where
  "extractEmail text = (case regex_match email_re text of Some m \<Rightarrow> m | None \<Rightarrow> ''unknown@example.com'')"

text \<open>An uploaded CV of \<open>server.js\<close>, and an entry of the result: \<open>{...cv, explanation, email}\<close>.\<close>

record uploaded_cv =
  filename :: string
  content :: string

record ranked_cv = uploaded_cv +
  cv_explanation :: string
  extracted_email :: string

definition system_prompt :: string where
  "system_prompt = ''You are an AI that screens resumes fairly. Hide names/nationalities and give a brief ranking explanation.''"

text \<open>
  The chat completion is a service outside the repository: \<open>rankCVs\<close> takes it as a
  parameter, from the system and the user message to the content of the first choice.
\<close>

definition rankCVs :: "(string \<Rightarrow> string \<Rightarrow> string) \<Rightarrow> uploaded_cv list \<Rightarrow> string \<Rightarrow> ranked_cv list" where
  "rankCVs createChatCompletion cvs jobDesc =
    (let results =
           map (\<lambda>c. \<lparr>filename = filename c, content = content c,
                      cv_explanation = createChatCompletion system_prompt
                          (''Job: '' @ jobDesc @ [CHR 0x0A] @ ''CV:'' @ [CHR 0x0A] @ content c),
                      extracted_email = extractEmail (content c)\<rparr>) cvs
     in sort_key (\<lambda>r. - int (js_length (cv_explanation r))) results)"

section \<open>Example data\<close>

text \<open>
  A job, a CV as \<open>extractCVContent\<close> produces it, an application for the job, a request
  and a chat completion, for the concrete instances below.
\<close>

definition example_job :: job_description where
  "example_job =
    \<lparr>jd_id = 1, jd_job_key = ''web-developer'', title = ''Web Developer'',
     description = ''Builds web applications'', requirements = [''JavaScript'', ''SQL''],
     department = Some ''Engineering'', level = Some ''Mid-Level'', salary_range = None,
     location = Some ''Remote'', is_active = True\<rparr>"

definition example_cv :: cv where
  "example_cv =
    \<lparr>cv_name = ''[REDACTED FOR BIAS PREVENTION]'',
     cv_email = ''[CONTACT INFO HIDDEN UNTIL DECISION]'',
     skills = Some [''JavaScript'', ''React'', ''Node.js'', ''SQL'', ''Git'', ''CSS''],
     experience = Some ''6 years'',
     education = Some ''Master's degree'',
     achievements = Some [''Led successful project implementations'',
       ''Improved system performance by 30%'', ''Collaborated with cross-functional teams'',
       ''Mentored junior team members''],
     extractedAt = ''2024-05-01T10:00:00.000Z''\<rparr>"

definition example_application :: application where
  "example_application =
    \<lparr>app_id = 1, app_job_key = Some ''web-developer'', email = ''jane.doe@example.org'',
     phone = ''+15550100200'', cover_letter = Some ''Dear team'', file_name = ''jane_doe.pdf'',
     file_size = 42000, file_type = ''application/pdf'',
     file_url = Some ''stored_cv_1714557600000_jane_doe.pdf'', cv_content = Some example_cv,
     ai_score = None, ai_explanation = None, status = Some ''pending'',
     anonymized_id = ''APP_K3X9QZ'', submitted_at = 100, reviewed_at = None,
     reviewed_by = None\<rparr>"

definition example_request :: request where
  "example_request = \<lparr>jobKey = Some ''web-developer'', userId = 7, ip = ''127.0.0.1''\<rparr>"

definition example_completion :: "string \<Rightarrow> string \<Rightarrow> string" where
  "example_completion system_message user_message = ''Strong match for the role.''"

section \<open>Facts about strings and matching\<close>



lemma first_match_map: "first_match f (map g ks) = first_match (\<lambda>k. f (g k)) ks"
  by (induction ks) (auto split: option.splits)

lemma regex_match_Nil: "regex_match re [] = match_here re []"
  by (simp add: regex_match_def split: option.splits)

lemma regex_match_Cons:
  "regex_match re (x # xs) =
     (case match_here re (x # xs) of Some r \<Rightarrow> Some r | None \<Rightarrow> regex_match re xs)"
proof -
  have "[0..<Suc (Suc (length xs))] = 0 # [Suc 0..<Suc (Suc (length xs))]"
    by (rule upt_conv_Cons) simp
  also have "[Suc 0..<Suc (Suc (length xs))] = map Suc [0..<Suc (length xs)]"
    by (rule map_Suc_upt [symmetric])
  finally have "[0..<Suc (Suc (length xs))] = 0 # map Suc [0..<Suc (length xs)]" .
  then have "regex_match re (x # xs) =
      first_match (\<lambda>i. match_here re (drop i (x # xs))) (0 # map Suc [0..<Suc (length xs)])"
    by (simp add: regex_match_def del: upt_Suc)
  then show ?thesis
    by (cases "match_here re (x # xs)") (simp_all add: regex_match_def first_match_map del: upt_Suc)
qed

lemma match_here_digits:
  "match_here digits_re s =
     (if takeWhile is_digit s = [] then None else Some (takeWhile is_digit s))"
proof (cases "takeWhile is_digit s = []")
  case True
  then show ?thesis by (simp add: digits_re_def)
next
  case False
  define n where "n = length (takeWhile is_digit s)"
  have n: "0 < n" using False by (simp add: n_def)
  have "rev [1..<Suc n] = n # rev [1..<n]" using n by simp
  moreover have "take n s = takeWhile is_digit s"
    unfolding n_def by (metis takeWhile_eq_take)
  ultimately show ?thesis using False
    by (simp add: digits_re_def n_def [symmetric] Let_def del: upt_Suc)
qed

lemma regex_match_digits:
  assumes "\<forall>c \<in> set pre. \<not> is_digit c" and "ds \<noteq> []" and "\<forall>c \<in> set ds. is_digit c"
    and "post = [] \<or> \<not> is_digit (hd post)"
  shows "regex_match digits_re (pre @ ds @ post) = Some ds"
  using assms(1)
proof (induction pre)
  case Nil
  have "takeWhile is_digit (ds @ post) = ds"
    using assms(3,4) by (cases post) (auto simp: takeWhile_append2 takeWhile_eq_all_conv)
  moreover obtain d ds' where "ds = d # ds'" using assms(2) by (cases ds) auto
  ultimately show ?case using assms(2)
    by (simp add: regex_match_Cons match_here_digits del: takeWhile.simps)
next
  case (Cons p pre)
  then show ?case by (simp add: regex_match_Cons match_here_digits)
qed

lemma regex_match_no_digits:
  "\<forall>c \<in> set s. \<not> is_digit c \<Longrightarrow> regex_match digits_re s = None"
  by (induction s) (simp_all add: regex_match_Nil regex_match_Cons match_here_digits)

lemma char_code_digit_char: "d < 10 \<Longrightarrow> char_code (digit_char d) = 48 + d"
  by (simp add: char_code_def digit_char_def)

lemma is_digit_digit_char: "d < 10 \<Longrightarrow> is_digit (digit_char d)"
  by (simp add: is_digit_def char_code_digit_char)

lemma decimal_digits: "\<forall>c \<in> set (decimal n). is_digit c"
proof (induction n rule: decimal.induct)
  case (1 n)
  show ?case
  proof (cases "n < 10")
    case True
    then show ?thesis by (subst decimal.simps) (simp add: is_digit_digit_char)
  next
    case False
    then show ?thesis using 1 by (subst decimal.simps) (simp add: is_digit_digit_char)
  qed
qed

lemma decimal_nonempty: "decimal n \<noteq> []"
  by (subst decimal.simps) simp

lemma parseInt_snoc: "parseInt (ds @ [c]) = 10 * parseInt ds + (char_code c - 48)"
  by (simp add: parseInt_def)

lemma parseInt_decimal: "parseInt (decimal n) = n"
proof (induction n rule: decimal.induct)
  case (1 n)
  show ?case
  proof (cases "n < 10")
    case True
    then show ?thesis by (subst decimal.simps) (simp add: parseInt_def char_code_digit_char)
  next
    case False
    then have "parseInt (decimal (n div 10)) = n div 10" using 1 by simp
    with False show ?thesis
      by (subst decimal.simps) (simp add: parseInt_snoc char_code_digit_char)
  qed
qed

section \<open>Facts about the local variables of the scoring\<close>

lemma evaluateExperience_bounds: "10 \<le> evaluateExperience c jd \<and> evaluateExperience c jd \<le> 25"
  by (simp add: evaluateExperience_def Let_def)

lemma dimensionScores_analyze_locals:
  "dimensionScores (analyze_locals c jd) =
     [''experience'' \<mapsto> evaluateExperience c jd,
      ''skills'' \<mapsto> min 40 (int (length (matchedSkills c jd)) * 8),
      ''education'' \<mapsto> (if education_includes c ''master'' then 15
                        else if education_includes c ''bachelor'' then 10 else 0),
      ''achievements'' \<mapsto>
         min 20 (int (length (case achievements c of Some xs \<Rightarrow> xs | None \<Rightarrow> [])) * 4)]"
  by (simp add: analyze_locals_def score_achievements_def score_education_def score_skills_def
      score_experience_def Let_def split: prod.splits)

lemma totalScore_analyze_locals:
  "totalScore (analyze_locals c jd) =
     evaluateExperience c jd
     + min 40 (int (length (matchedSkills c jd)) * 8)
     + (if education_includes c ''master'' then 15
        else if education_includes c ''bachelor'' then 10 else 0)
     + min 20 (int (length (case achievements c of Some xs \<Rightarrow> xs | None \<Rightarrow> [])) * 4)"
  by (simp add: analyze_locals_def score_achievements_def score_education_def score_skills_def
      score_experience_def Let_def split: prod.splits)

lemma analyze_locals_scores:
  "\<exists>e s d a. dimensionScores (analyze_locals c jd) =
       [''experience'' \<mapsto> e, ''skills'' \<mapsto> s, ''education'' \<mapsto> d, ''achievements'' \<mapsto> a]
     \<and> totalScore (analyze_locals c jd) = e + s + d + a
     \<and> e = evaluateExperience c jd
     \<and> s = min 40 (int (length (matchedSkills c jd)) * 8)
     \<and> 0 \<le> d \<and> d \<le> 15 \<and> 0 \<le> a \<and> a \<le> 20"
proof -
  let ?d = "if education_includes c ''master'' then 15
            else if education_includes c ''bachelor'' then 10 else (0::int)"
  let ?a = "min 20 (int (length (case achievements c of Some xs \<Rightarrow> xs | None \<Rightarrow> [])) * 4)"
  have "0 \<le> ?d" "?d \<le> 15" "0 \<le> ?a" "?a \<le> 20" by simp_all
  then show ?thesis
    using dimensionScores_analyze_locals [of c jd] totalScore_analyze_locals [of c jd]
    by blast
qed



section \<open>Facts about the ranking loop\<close>

lemma analyzeApplication_None: "analyzeApplication None jd = Inl TypeError"
  by (simp add: analyzeApplication_def)

lemma analyzeApplication_Some: "\<exists>an. analyzeApplication (Some c) jd = Inr an"
  by (simp add: analyzeApplication_def Let_def)

lemma analyzeApplication_Inl_iff: "analyzeApplication x jd = Inl e \<longleftrightarrow> x = None \<and> e = TypeError"
  by (cases x; cases e) (simp_all add: analyzeApplication_def Let_def)

lemma update_score_frame [simp]:
  "job_descriptions (update_score sc ex i db) = job_descriptions db"
  "audit_logs (update_score sc ex i db) = audit_logs db"
  "map app_id (applications (update_score sc ex i db)) = map app_id (applications db)"
  by (simp_all add: update_score_def comp_def)

lemma score_all_entries:
  "fst (score_all jd apps acc db) = Inr rs \<Longrightarrow>
     \<exists>es. rs = acc @ es \<and> map ranked_id es = map app_id apps"
proof (induction apps arbitrary: acc db)
  case Nil
  then show ?case by simp
next
  case (Cons b bs)
  then obtain an where an: "analyzeApplication (cv_content b) jd = Inr an"
    by (cases "analyzeApplication (cv_content b) jd") auto
  let ?e = "\<lparr>ranked_id = app_id b, ranked_anonymized_id = anonymized_id b,
             ranked_score = score an, ranked_explanation = explanation an\<rparr>"
  from Cons.prems an
  have "fst (score_all jd bs (acc @ [?e]) (update_score (score an) (explanation an) (app_id b) db)) = Inr rs"
    by simp
  from Cons.IH [OF this] obtain es where "rs = (acc @ [?e]) @ es" "map ranked_id es = map app_id bs"
    by blast
  then have "rs = acc @ (?e # es) \<and> map ranked_id (?e # es) = map app_id (b # bs)" by simp
  then show ?case by blast
qed

lemma score_all_fails:
  "\<exists>b \<in> set apps. cv_content b = None \<Longrightarrow> fst (score_all jd apps acc db) = Inl TypeError"
proof (induction apps arbitrary: acc db)
  case Nil
  then show ?case by simp
next
  case (Cons b bs)
  show ?case
  proof (cases "cv_content b")
    case None
    then show ?thesis by (simp add: analyzeApplication_None)
  next
    case (Some c)
    with Cons.prems have "\<exists>b \<in> set bs. cv_content b = None" by auto
    from Cons.IH [OF this] show ?thesis
      by (cases "analyzeApplication (cv_content b) jd") (auto simp: analyzeApplication_Inl_iff Some)
  qed
qed

lemma distinct_ids_eq:
  "distinct (map app_id rows) \<Longrightarrow> r \<in> set rows \<Longrightarrow> b \<in> set rows \<Longrightarrow> app_id r = app_id b \<Longrightarrow> r = b"
  by (meson distinct_map inj_onD)

lemma scored_row_Inr:
  "analyzeApplication (cv_content b) jd = Inr an \<Longrightarrow>
     scored_row jd b = b\<lparr>ai_score := Some (score an), ai_explanation := Some (explanation an)\<rparr>"
  by (simp add: scored_row_def)

lemma score_all_database:
  assumes "distinct (map app_id (applications db))" and "set apps \<subseteq> set (applications db)"
    and "distinct apps"
  shows "snd (score_all jd apps acc db) =
     db\<lparr>applications :=
          map (\<lambda>r. if r \<in> set (takeWhile (\<lambda>b. cv_content b \<noteq> None) apps) then scored_row jd r else r)
            (applications db)\<rparr>"
  using assms
proof (induction apps arbitrary: acc db)
  case Nil
  then show ?case by simp
next
  case (Cons b bs)
  show ?case
  proof (cases "analyzeApplication (cv_content b) jd")
    case (Inl e)
    then have "cv_content b = None" by (simp add: analyzeApplication_Inl_iff)
    with Inl show ?thesis by simp
  next
    case (Inr an)
    have ok: "cv_content b \<noteq> None"
    proof
      assume "cv_content b = None"
      with Inr show False by (simp add: analyzeApplication_None)
    qed
    let ?db1 = "update_score (score an) (explanation an) (app_id b) db"
    let ?tw = "takeWhile (\<lambda>b. cv_content b \<noteq> None) bs"
    have b_in: "b \<in> set (applications db)" and b_notin: "b \<notin> set bs"
      using Cons.prems by auto
    have rows1: "applications ?db1 = map (\<lambda>r. if r = b then scored_row jd b else r) (applications db)"
      unfolding update_score_def using distinct_ids_eq [OF Cons.prems(1) _ b_in]
      by (auto simp: scored_row_Inr [OF Inr])
    have d1: "distinct (map app_id (applications ?db1))"
      using Cons.prems(1) by simp
    have s1: "set bs \<subseteq> set (applications ?db1)"
    proof
      fix x assume x: "x \<in> set bs"
      then have "x \<in> set (applications db)" "x \<noteq> b" using Cons.prems b_notin by auto
      then show "x \<in> set (applications ?db1)" unfolding rows1 by force
    qed
    have d2: "distinct bs" using Cons.prems by simp
    have sb_notin: "scored_row jd b \<notin> set ?tw"
    proof
      assume "scored_row jd b \<in> set ?tw"
      then have m: "scored_row jd b \<in> set bs" by (meson set_takeWhileD)
      then have "scored_row jd b \<in> set (applications db)" using Cons.prems by auto
      moreover have "app_id (scored_row jd b) = app_id b" by (simp add: scored_row_Inr [OF Inr])
      ultimately have "scored_row jd b = b" using distinct_ids_eq [OF Cons.prems(1) _ b_in] by blast
      with m b_notin show False by simp
    qed
    have "snd (score_all jd (b # bs) acc db) =
        snd (score_all jd bs (acc @ [\<lparr>ranked_id = app_id b, ranked_anonymized_id = anonymized_id b,
             ranked_score = score an, ranked_explanation = explanation an\<rparr>]) ?db1)"
      using Inr by simp
    also have "\<dots> = ?db1\<lparr>applications :=
          map (\<lambda>r. if r \<in> set ?tw then scored_row jd r else r) (applications ?db1)\<rparr>"
      by (rule Cons.IH [OF d1 s1 d2])
    also have "\<dots> = db\<lparr>applications :=
          map (\<lambda>r. if r \<in> set (takeWhile (\<lambda>b. cv_content b \<noteq> None) (b # bs)) then scored_row jd r else r)
            (applications db)\<rparr>"
      unfolding rows1 using ok sb_notin b_notin
      by (auto simp: update_score_def dest: set_takeWhileD)
    finally show ?thesis .
  qed
qed

lemma example_analysis:
  "analyzeApplication (Some example_cv) example_job =
     Inr \<lparr>score = 72,
          explanation = join [CHR 0x0A]
            [check_mark @ '' Excellent relevant experience: 6 years with strong background in required areas'',
             check_mark @ '' 2 matching skill(s): JavaScript, SQL'',
             check_mark @ '' Holds a Master's degree'',
             check_mark @ '' 4 notable achievement(s)'']\<rparr>"
  by code_simp

lemma decimal_small:
  "decimal 1 = ''1''" "decimal 2 = ''2''" "decimal 3 = ''3''"
  "decimal (Suc 0) = ''1''" "decimal (Suc (Suc 0)) = ''2''"
  by code_simp+

lemma example_application_fields:
  "app_id example_application = 1"
  "app_job_key example_application = Some ''web-developer''"
  "status example_application = Some ''pending''"
  "ai_score example_application = None"
  "cv_content example_application = Some example_cv"
  "anonymized_id example_application = ''APP_K3X9QZ''"
  "submitted_at example_application = 100"
  by (simp_all add: example_application_def)

lemma example_job_fields:
  "jd_job_key example_job = ''web-developer''"
  "is_active example_job = True"
  by (simp_all add: example_job_def)

lemma example_request_fields:
  "jobKey example_request = Some ''web-developer''"
  "userId example_request = 7"
  "ip example_request = ''127.0.0.1''"
  by (simp_all add: example_request_def)

lemmas example_run = rank_def Let_def select_job_def select_pending_def pending_unscored_def
  example_application_fields example_job_fields example_request_fields example_analysis
  analyzeApplication_None update_score_def logAuditEvent_def sort_by_score_def decimal_small

lemma filter_eq_append_ConsD:
  "filter P es = A @ x # R \<Longrightarrow> \<exists>us vs. es = us @ x # vs \<and> filter P vs = R"
proof (induction es arbitrary: A)
  case Nil
  then show ?case by simp
next
  case (Cons e es)
  show ?case
  proof (cases "P e")
    case False
    with Cons.prems have "filter P es = A @ x # R" by simp
    from Cons.IH [OF this] obtain us vs where "es = us @ x # vs" "filter P vs = R" by blast
    then have "e # es = (e # us) @ x # vs \<and> filter P vs = R" by simp
    then show ?thesis by blast
  next
    case True
    show ?thesis
    proof (cases A)
      case Nil
      with True Cons.prems have "e # es = [] @ x # es \<and> filter P es = R" by simp
      then show ?thesis by blast
    next
      case (Cons a A')
      with True Cons.prems have "filter P es = A' @ x # R" by simp
      from Cons.IH [OF this] obtain us vs where "es = us @ x # vs" "filter P vs = R" by blast
      then have "e # es = (e # us) @ x # vs \<and> filter P vs = R" by simp
      then show ?thesis by blast
    qed
  qed
qed

lemma stable_sort_pairs:
  assumes "sort_key f es = xs @ x # ys @ y # zs" and "f x = f y"
  shows "\<exists>us vs ws. es = us @ x # vs @ y # ws"
proof -
  let ?P = "\<lambda>e. f e = f x"
  have "filter ?P es = filter ?P (sort_key f es)"
    by (simp add: sort_key_stable)
  also have "\<dots> = filter ?P xs @ x # (filter ?P ys @ y # filter ?P zs)"
    using assms by simp
  finally obtain us vs1 where 1: "es = us @ x # vs1"
    and "filter ?P vs1 = filter ?P ys @ y # filter ?P zs"
    using filter_eq_append_ConsD by meson
  then obtain vs ws where "vs1 = vs @ y # ws"
    using filter_eq_append_ConsD by meson
  with 1 show ?thesis by blast
qed

lemma rank_scoring:
  assumes "jobKey req = Some k" and "k \<noteq> []" and "select_job db k = jd # js"
    and "select_pending db k \<noteq> []"
  shows "rank req db =
    (case score_all jd (select_pending db k) [] db of
       (Inl err, db') \<Rightarrow> (ErrorResponse 500 ''Failed to rank applications'', db')
     | (Inr rankedApplications, db') \<Rightarrow>
         (RankResponse (sort_by_score rankedApplications)
            (decimal (length (select_pending db k)) @ '' applications ranked successfully''),
          logAuditEvent (userId req) ''AI_RANK'' ''applications'' None
            [(''jobKey'', k), (''applicationsCount'', decimal (length (select_pending db k)))]
            (ip req) db'))"
  using assms by (simp add: rank_def Let_def)

lemma rank_success_cases:
  assumes "fst (rank req db) = RankResponse rs msg"
  obtains k jd js es db' where "jobKey req = Some k" "k \<noteq> []" "select_job db k = jd # js"
    "select_pending db k \<noteq> []" "score_all jd (select_pending db k) [] db = (Inr es, db')"
    "rs = sort_by_score es"
    "snd (rank req db) = logAuditEvent (userId req) ''AI_RANK'' ''applications'' None
            [(''jobKey'', k), (''applicationsCount'', decimal (length (select_pending db k)))]
            (ip req) db'"
  using assms
  by (auto simp: rank_def Let_def split: option.splits if_splits list.splits prod.splits sum.splits)

lemma select_job_empty_iff:
  "select_job db k = [] \<longleftrightarrow> (\<forall>j \<in> set (job_descriptions db). jd_job_key j \<noteq> k)"
  by (auto simp: select_job_def filter_empty_conv)

lemma select_pending_empty_iff:
  "select_pending db k = [] \<longleftrightarrow> (\<forall>a \<in> set (applications db). \<not> pending_unscored k a)"
  by (auto simp: select_pending_def filter_empty_conv)

lemma select_pending_rows:
  "set (select_pending db k) \<subseteq> set (applications db)"
  "distinct (applications db) \<Longrightarrow> distinct (select_pending db k)"
  by (auto simp: select_pending_def)

lemma distinct_rows: "distinct (map app_id rows) \<Longrightarrow> distinct rows"
  by (simp add: distinct_map)

lemma takeWhile_all: "\<forall>b \<in> set xs. P b \<Longrightarrow> takeWhile P xs = xs"
  by (simp add: takeWhile_eq_all_conv)

lemma takeWhile_first: "\<forall>b \<in> set pre. P b \<Longrightarrow> \<not> P a \<Longrightarrow> takeWhile P (pre @ a # post) = pre"
  by (simp add: takeWhile_append2)

lemma pending_scored_row:
  "cv_content r \<noteq> None \<Longrightarrow> \<not> pending_unscored k (scored_row jd r)"
proof -
  assume "cv_content r \<noteq> None"
  then obtain c where "cv_content r = Some c" by auto
  moreover obtain an where "analyzeApplication (Some c) jd = Inr an"
    using analyzeApplication_Some by blast
  ultimately show ?thesis by (simp add: scored_row_def pending_unscored_def)
qed

lemma analyzeApplication_redact:
  "analyzeApplication (map_option redact_cv x) jd = analyzeApplication x jd"
  by (cases x)
    (simp_all add: analyzeApplication_def analyze_locals_def score_achievements_def
      score_education_def score_skills_def score_experience_def evaluateExperience_def
      matchedSkills_def education_includes_def redact_cv_def Let_def)

lemma redact_eqD:
  assumes "redact a = redact b"
  shows "app_id a = app_id b" and "anonymized_id a = anonymized_id b"
    and "pending_unscored k a = pending_unscored k b"
    and "analyzeApplication (cv_content a) jd = analyzeApplication (cv_content b) jd"
proof -
  from assms have "app_id (redact a) = app_id (redact b)"
    and "anonymized_id (redact a) = anonymized_id (redact b)"
    and "pending_unscored k (redact a) = pending_unscored k (redact b)"
    and c: "cv_content (redact a) = cv_content (redact b)"
    by simp_all
  then show "app_id a = app_id b" and "anonymized_id a = anonymized_id b"
    and "pending_unscored k a = pending_unscored k b"
    by (simp_all add: redact_def pending_unscored_def)
  from c have "map_option redact_cv (cv_content a) = map_option redact_cv (cv_content b)"
    by (simp add: redact_def)
  then have "analyzeApplication (map_option redact_cv (cv_content a)) jd
      = analyzeApplication (map_option redact_cv (cv_content b)) jd"
    by simp
  then show "analyzeApplication (cv_content a) jd = analyzeApplication (cv_content b) jd"
    by (simp only: analyzeApplication_redact)
qed

lemma score_all_redact:
  "map redact apps = map redact apps' \<Longrightarrow>
     fst (score_all jd apps acc db) = fst (score_all jd apps' acc db')"
proof (induction apps arbitrary: apps' acc db db')
  case Nil
  then show ?case by simp
next
  case (Cons a as)
  then obtain b bs where apps': "apps' = b # bs" and ab: "redact a = redact b"
    and rest: "map redact as = map redact bs"
    by (cases apps') auto
  note eq = redact_eqD [OF ab]
  have b: "analyzeApplication (cv_content b) jd = analyzeApplication (cv_content a) jd"
    using eq(4) [of jd] by simp
  show ?case
  proof (cases "analyzeApplication (cv_content a) jd")
    case (Inl e)
    then show ?thesis by (simp add: apps' b)
  next
    case (Inr an)
    then show ?thesis using Cons.IH [OF rest] by (simp add: apps' b eq(1,2) [symmetric])
  qed
qed

lemma filter_redact:
  "map redact xs = map redact ys \<Longrightarrow>
     map redact (filter (pending_unscored k) xs) = map redact (filter (pending_unscored k) ys)"
proof (induction xs arbitrary: ys)
  case Nil
  then show ?case by simp
next
  case (Cons x xs)
  then obtain y ys' where "ys = y # ys'" "redact x = redact y" "map redact xs = map redact ys'"
    by (cases ys) auto
  with Cons.IH [of ys'] redact_eqD(3) [of x y k] show ?case by simp
qed

lemma fst_rank:
  "fst (rank req db) =
    (case jobKey req of
       None \<Rightarrow> ErrorResponse 400 ''Job key is required''
     | Some k \<Rightarrow>
         if k = [] then ErrorResponse 400 ''Job key is required''
         else
           (case select_job db k of
              [] \<Rightarrow> ErrorResponse 404 ''Job not found''
            | jd # _ \<Rightarrow>
                if select_pending db k = [] then ErrorResponse 400 ''No pending applications to rank''
                else
                  (case fst (score_all jd (select_pending db k) [] db) of
                     Inl err \<Rightarrow> ErrorResponse 500 ''Failed to rank applications''
                   | Inr rs \<Rightarrow> RankResponse (sort_by_score rs)
                       (decimal (length (select_pending db k)) @ '' applications ranked successfully''))))"
  by (simp add: rank_def Let_def split: option.splits list.splits prod.splits sum.splits)


section \<open>The end-to-end scenario\<close>

text \<open>
  C5. For a job that requires JavaScript and SQL, a candidate with the skills javascript,
  react and sql, six years of experience, a bachelor's degree and three achievements is
  scored 25 + 16 + 10 + 12 = 63, and the explanation lists both matched skills.
\<close>

theorem end_to_end_scenario:
  "analyzeApplication
     (Some \<lparr>cv_name = n, cv_email = e, skills = Some [''javascript'', ''react'', ''sql''],
            experience = Some ''6 years'', education = Some ''bachelor'',
            achievements = Some [a1, a2, a3], extractedAt = t\<rparr>)
     \<lparr>jd_id = i, jd_job_key = k, title = ti, description = d,
      requirements = [''JavaScript'', ''SQL''], department = dp, level = lv,
      salary_range = sr, location = lo, is_active = act\<rparr>
   = Inr \<lparr>score = 25 + 16 + 10 + 12,
          explanation = join [CHR 0x0A]
            [check_mark @ '' Excellent relevant experience: 6 years with strong background in required areas'',
             check_mark @ '' 2 matching skill(s): JavaScript, SQL'',
             check_mark @ '' Holds a Bachelor's degree'',
             check_mark @ '' 3 notable achievement(s)'']\<rparr>"
  by code_simp

theorem end_to_end_scenario_witness:
  "map_sum id score
     (analyzeApplication
       (Some \<lparr>cv_name = ''[REDACTED FOR BIAS PREVENTION]'',
              cv_email = ''[CONTACT INFO HIDDEN UNTIL DECISION]'',
              skills = Some [''javascript'', ''react'', ''sql''],
              experience = Some ''6 years'', education = Some ''bachelor'',
              achievements = Some [''Led successful project implementations'',
                ''Improved system performance by 30%'',
                ''Mentored junior team members''],
              extractedAt = ''2024-01-01''\<rparr>)
       \<lparr>jd_id = 1, jd_job_key = ''web-developer'', title = ''Web Developer'',
        description = ''Builds web applications'',
        requirements = [''JavaScript'', ''SQL''], department = None, level = None,
        salary_range = None, location = None, is_active = True\<rparr>)
   = Inr 63"
  using end_to_end_scenario
    [of "''[REDACTED FOR BIAS PREVENTION]''" "''[CONTACT INFO HIDDEN UNTIL DECISION]''"
        "''Led successful project implementations''" "''Improved system performance by 30%''"
        "''Mentored junior team members''" "''2024-01-01''" 1 "''web-developer''"
        "''Web Developer''" "''Builds web applications''" None None None None True]
  by simp

section \<open>The experience dimension\<close>

text \<open>
  C7. The experience score is the tier of the number of years: 25 from six years on, 20 from
  four, 15 from two, and 10 below; an experience that is missing, or that names no number,
  counts as no years and gives 10. The profile keeps the experience as a text such as
  \<open>7 years\<close>, whose first run of digits is the number of years.
\<close>

theorem experience_tiers:
  assumes "\<forall>x \<in> set pre. \<not> is_digit x" and "post = [] \<or> \<not> is_digit (hd post)"
  shows "evaluateExperience (c\<lparr>experience := Some (pre @ decimal years @ post)\<rparr>) jd =
           (if years \<ge> 6 then 25 else if years \<ge> 4 then 20 else if years \<ge> 2 then 15 else 10)
         \<and> evaluateExperience (c\<lparr>experience := Some pre\<rparr>) jd = 10
         \<and> evaluateExperience (c\<lparr>experience := None\<rparr>) jd = 10"
proof -
  have "regex_match digits_re (pre @ decimal years @ post) = Some (decimal years)"
    using assms by (intro regex_match_digits decimal_nonempty decimal_digits)
  moreover have "regex_match digits_re pre = None"
    using assms(1) by (rule regex_match_no_digits)
  ultimately show ?thesis
    by (simp add: evaluateExperience_def parseInt_decimal)
qed

theorem experience_tiers_witness:
  "evaluateExperience \<lparr>cv_name = ''-'', cv_email = ''-'', skills = None,
        experience = Some ''7 years'', education = None, achievements = None, extractedAt = ''-''\<rparr>
       \<lparr>jd_id = 1, jd_job_key = ''dba'', title = ''DBA'', description = ''-'',
        requirements = [], department = None, level = None,
        salary_range = None, location = None, is_active = True\<rparr> = 25
   \<and> evaluateExperience \<lparr>cv_name = ''-'', cv_email = ''-'', skills = None,
        experience = Some ''5 years'', education = None, achievements = None, extractedAt = ''-''\<rparr>
       \<lparr>jd_id = 1, jd_job_key = ''dba'', title = ''DBA'', description = ''-'',
        requirements = [], department = None, level = None,
        salary_range = None, location = None, is_active = True\<rparr> = 20
   \<and> evaluateExperience \<lparr>cv_name = ''-'', cv_email = ''-'', skills = None,
        experience = Some ''about 3 years'', education = None, achievements = None, extractedAt = ''-''\<rparr>
       \<lparr>jd_id = 1, jd_job_key = ''dba'', title = ''DBA'', description = ''-'',
        requirements = [], department = None, level = None,
        salary_range = None, location = None, is_active = True\<rparr> = 15
   \<and> evaluateExperience \<lparr>cv_name = ''-'', cv_email = ''-'', skills = None,
        experience = Some ''0 years'', education = None, achievements = None, extractedAt = ''-''\<rparr>
       \<lparr>jd_id = 1, jd_job_key = ''dba'', title = ''DBA'', description = ''-'',
        requirements = [], department = None, level = None,
        salary_range = None, location = None, is_active = True\<rparr> = 10
   \<and> evaluateExperience \<lparr>cv_name = ''-'', cv_email = ''-'', skills = None,
        experience = Some ''about '', education = None, achievements = None, extractedAt = ''-''\<rparr>
       \<lparr>jd_id = 1, jd_job_key = ''dba'', title = ''DBA'', description = ''-'',
        requirements = [], department = None, level = None,
        salary_range = None, location = None, is_active = True\<rparr> = 10
   \<and> evaluateExperience \<lparr>cv_name = ''-'', cv_email = ''-'', skills = None,
        experience = None, education = None, achievements = None, extractedAt = ''-''\<rparr>
       \<lparr>jd_id = 1, jd_job_key = ''dba'', title = ''DBA'', description = ''-'',
        requirements = [], department = None, level = None,
        salary_range = None, location = None, is_active = True\<rparr> = 10"
proof -
  let ?c = "\<lparr>cv_name = ''-'', cv_email = ''-'', skills = None,
        experience = None, education = None, achievements = None, extractedAt = ''-''\<rparr>"
  let ?jd = "\<lparr>jd_id = 1, jd_job_key = ''dba'', title = ''DBA'', description = ''-'',
        requirements = [], department = None, level = None,
        salary_range = None, location = None, is_active = True\<rparr>"
  have d: "decimal 7 = ''7''" "decimal 5 = ''5''" "decimal 3 = ''3''" "decimal 0 = ''0''"
    by code_simp+
  have pre: "\<forall>x \<in> set []. \<not> is_digit x" by simp
  have pre3: "\<forall>x \<in> set ''about ''. \<not> is_digit x" by code_simp
  have post: "'' years'' = [] \<or> \<not> is_digit (hd '' years'')" by code_simp
  from experience_tiers [OF pre post, where c = ?c and years = 7 and jd = ?jd]
    experience_tiers [OF pre post, where c = ?c and years = 5 and jd = ?jd]
    experience_tiers [OF pre3 post, where c = ?c and years = 3 and jd = ?jd]
    experience_tiers [OF pre post, where c = ?c and years = 0 and jd = ?jd]
  show ?thesis unfolding d by simp
qed


section \<open>The skills dimension\<close>




section \<open>Bounds of the scores\<close>

text \<open>
  C8. For every profile and every job, each dimension score lies between 0 and the weight of
  its dimension, the total score is the sum of the dimension scores and lies between 0 and
  100, and it is the score that \<open>analyzeApplication\<close> returns.
\<close>

theorem score_bounds:
  "dom (dimensionScores (analyze_locals c jd)) = dom weights
   \<and> (\<forall>d \<in> dom weights. 0 \<le> the (dimensionScores (analyze_locals c jd) d)
         \<and> the (dimensionScores (analyze_locals c jd) d) \<le> the (weights d))
   \<and> totalScore (analyze_locals c jd) = (\<Sum>d \<in> dom weights. the (dimensionScores (analyze_locals c jd) d))
   \<and> 0 \<le> totalScore (analyze_locals c jd) \<and> totalScore (analyze_locals c jd) \<le> 100
   \<and> analyzeApplication (Some c) jd =
       Inr \<lparr>score = totalScore (analyze_locals c jd),
            explanation = join [CHR 0x0A] (explanationPoints (analyze_locals c jd))\<rparr>"
proof -
  obtain e s d a where
    ds: "dimensionScores (analyze_locals c jd) =
       [''experience'' \<mapsto> e, ''skills'' \<mapsto> s, ''education'' \<mapsto> d, ''achievements'' \<mapsto> a]"
    and tot: "totalScore (analyze_locals c jd) = e + s + d + a"
    and e: "e = evaluateExperience c jd"
    and s: "s = min 40 (int (length (matchedSkills c jd)) * 8)"
    and d: "0 \<le> d" "d \<le> 15" and a: "0 \<le> a" "a \<le> 20"
    using analyze_locals_scores [of c jd] by blast
  have eb: "0 \<le> e" "e \<le> 25" using evaluateExperience_bounds [of c jd] e by auto
  have sb: "0 \<le> s" "s \<le> 40" using s by auto
  have dw: "dom weights = {''experience'', ''skills'', ''education'', ''achievements''}"
    by (auto simp: weights_def)
  have 1: "dom (dimensionScores (analyze_locals c jd)) = dom weights"
    unfolding dw ds by auto
  have 2: "\<forall>k \<in> dom weights. 0 \<le> the (dimensionScores (analyze_locals c jd) k)
         \<and> the (dimensionScores (analyze_locals c jd) k) \<le> the (weights k)"
    unfolding dw ds using eb sb d a by (simp add: weights_def)
  have 3: "totalScore (analyze_locals c jd) = (\<Sum>k \<in> dom weights. the (dimensionScores (analyze_locals c jd) k))"
    unfolding dw ds tot by simp
  have 4: "0 \<le> totalScore (analyze_locals c jd)" "totalScore (analyze_locals c jd) \<le> 100"
    unfolding tot using eb sb d a by auto
  have 5: "analyzeApplication (Some c) jd =
       Inr \<lparr>score = totalScore (analyze_locals c jd),
            explanation = join [CHR 0x0A] (explanationPoints (analyze_locals c jd))\<rparr>"
    by (simp add: analyzeApplication_def Let_def)
  from 1 2 3 4 5 show ?thesis by blast
qed

theorem score_bounds_witness:
  "totalScore (analyze_locals
       \<lparr>cv_name = ''-'', cv_email = ''-'', skills = Some [''javascript'', ''react'', ''sql''],
        experience = Some ''6 years'', education = Some ''bachelor'',
        achievements = Some [''a'', ''b'', ''c''], extractedAt = ''-''\<rparr>
       \<lparr>jd_id = 1, jd_job_key = ''web'', title = ''Web'', description = ''-'',
        requirements = [''JavaScript'', ''SQL''], department = None, level = None,
        salary_range = None, location = None, is_active = True\<rparr>) = 63
   \<and> (\<Sum>d \<in> dom weights. the (dimensionScores (analyze_locals
       \<lparr>cv_name = ''-'', cv_email = ''-'', skills = Some [''javascript'', ''react'', ''sql''],
        experience = Some ''6 years'', education = Some ''bachelor'',
        achievements = Some [''a'', ''b'', ''c''], extractedAt = ''-''\<rparr>
       \<lparr>jd_id = 1, jd_job_key = ''web'', title = ''Web'', description = ''-'',
        requirements = [''JavaScript'', ''SQL''], department = None, level = None,
        salary_range = None, location = None, is_active = True\<rparr>) d)) = 63
   \<and> the (dimensionScores (analyze_locals
       \<lparr>cv_name = ''-'', cv_email = ''-'', skills = Some [''javascript'', ''react'', ''sql''],
        experience = Some ''6 years'', education = Some ''bachelor'',
        achievements = Some [''a'', ''b'', ''c''], extractedAt = ''-''\<rparr>
       \<lparr>jd_id = 1, jd_job_key = ''web'', title = ''Web'', description = ''-'',
        requirements = [''JavaScript'', ''SQL''], department = None, level = None,
        salary_range = None, location = None, is_active = True\<rparr>) ''skills'') \<le> 40"
proof -
  let ?c = "\<lparr>cv_name = ''-'', cv_email = ''-'', skills = Some [''javascript'', ''react'', ''sql''],
        experience = Some ''6 years'', education = Some ''bachelor'',
        achievements = Some [''a'', ''b'', ''c''], extractedAt = ''-''\<rparr>"
  let ?jd = "\<lparr>jd_id = 1, jd_job_key = ''web'', title = ''Web'', description = ''-'',
        requirements = [''JavaScript'', ''SQL''], department = None, level = None,
        salary_range = None, location = None, is_active = True\<rparr>"
  have t: "totalScore (analyze_locals ?c ?jd) = 63" by code_simp
  have k: "''skills'' \<in> dom weights" by (simp add: weights_def)
  have w: "the (weights ''skills'') = 40" by (simp add: weights_def)
  from score_bounds [of ?c ?jd]
  have b: "\<forall>d \<in> dom weights. 0 \<le> the (dimensionScores (analyze_locals ?c ?jd) d)
         \<and> the (dimensionScores (analyze_locals ?c ?jd) d) \<le> the (weights d)"
    and s: "totalScore (analyze_locals ?c ?jd)
         = (\<Sum>d \<in> dom weights. the (dimensionScores (analyze_locals ?c ?jd) d))"
    by blast+
  from b k have "the (dimensionScores (analyze_locals ?c ?jd) ''skills'') \<le> the (weights ''skills'')"
    by blast
  with w have 3: "the (dimensionScores (analyze_locals ?c ?jd) ''skills'') \<le> 40" by simp
  from s t have 2: "(\<Sum>d \<in> dom weights. the (dimensionScores (analyze_locals ?c ?jd) d)) = 63"
    by simp
  from t 2 3 show ?thesis by blast
qed


text \<open>
  C10. The experience score is at least 10, so the total score of every profile is at least
  10 and never 0; a profile without skills, experience, education and achievements is scored
  exactly 10.
\<close>

theorem minimum_score:
  "10 \<le> evaluateExperience c jd
   \<and> 10 \<le> totalScore (analyze_locals c jd)
   \<and> (\<forall>r. analyzeApplication cvContent jd = Inr r \<longrightarrow> 10 \<le> score r \<and> score r \<noteq> 0)
   \<and> map_sum id score (analyzeApplication
        (Some \<lparr>cv_name = n, cv_email = e, skills = None, experience = None, education = None,
               achievements = None, extractedAt = t\<rparr>) jd) = Inr 10"
proof -
  have ge: "10 \<le> totalScore (analyze_locals c' jd)" for c'
  proof -
    obtain e s d a where
      tot: "totalScore (analyze_locals c' jd) = e + s + d + a"
      and e: "e = evaluateExperience c' jd"
      and s: "s = min 40 (int (length (matchedSkills c' jd)) * 8)"
      and d: "0 \<le> d" and a: "0 \<le> a"
      using analyze_locals_scores [of c' jd] by blast
    have "10 \<le> e" using evaluateExperience_bounds [of c' jd] e by simp
    moreover have "0 \<le> s" using s by simp
    ultimately show ?thesis using tot d a by simp
  qed
  have 3: "\<forall>r. analyzeApplication cvContent jd = Inr r \<longrightarrow> 10 \<le> score r \<and> score r \<noteq> 0"
  proof (intro allI impI)
    fix r assume r: "analyzeApplication cvContent jd = Inr r"
    then obtain c' where "cvContent = Some c'" "score r = totalScore (analyze_locals c' jd)"
      by (auto simp: analyzeApplication_def Let_def split: option.splits)
    then show "10 \<le> score r \<and> score r \<noteq> 0" using ge [of c'] by simp
  qed
  have 4: "map_sum id score (analyzeApplication
        (Some \<lparr>cv_name = n, cv_email = e, skills = None, experience = None, education = None,
               achievements = None, extractedAt = t\<rparr>) jd) = Inr 10"
    by (simp add: analyzeApplication_def analyze_locals_def score_achievements_def
        score_education_def score_skills_def score_experience_def Let_def matchedSkills_def
        evaluateExperience_def education_includes_def)
  from evaluateExperience_bounds [of c jd] ge [of c] 3 4 show ?thesis by blast
qed

theorem minimum_score_witness:
  "\<exists>r. analyzeApplication
         (Some \<lparr>cv_name = ''-'', cv_email = ''-'', skills = Some [], experience = Some ''none'',
                education = Some '''', achievements = Some [], extractedAt = ''-''\<rparr>)
         \<lparr>jd_id = 1, jd_job_key = ''web'', title = ''Web'', description = ''-'',
          requirements = [''JavaScript'', ''SQL''], department = None, level = None,
          salary_range = None, location = None, is_active = True\<rparr> = Inr r
       \<and> 10 \<le> score r \<and> score r \<noteq> 0"
proof -
  let ?c = "\<lparr>cv_name = ''-'', cv_email = ''-'', skills = Some [], experience = Some ''none'',
                education = Some '''', achievements = Some [], extractedAt = ''-''\<rparr>"
  let ?jd = "\<lparr>jd_id = 1, jd_job_key = ''web'', title = ''Web'', description = ''-'',
          requirements = [''JavaScript'', ''SQL''], department = None, level = None,
          salary_range = None, location = None, is_active = True\<rparr>"
  obtain r where r: "analyzeApplication (Some ?c) ?jd = Inr r"
    by (simp add: analyzeApplication_def Let_def)
  with minimum_score [of ?c ?jd "Some ?c"] show ?thesis by blast
qed

section \<open>What the ranking returns of a candidate\<close>

text \<open>
  C1 (amended). The response of the ranking endpoint gives for each application its id, its
  anonymized id, its score and its explanation, and it does not depend on the personally
  identifying data of the candidates: two databases with the same jobs whose applications
  agree once the contact columns, the cover letter, the file names and the name and e-mail
  address inside the CV are blanked get the same response.
\<close>

theorem rank_output_independent_of_identity:
  assumes "job_descriptions db = job_descriptions db'"
    and "map redact (applications db) = map redact (applications db')"
  shows "fst (rank req db) = fst (rank req db')"
proof -
  have sj: "select_job db k = select_job db' k" for k
    using assms(1) by (simp add: select_job_def)
  have sp: "map redact (select_pending db k) = map redact (select_pending db' k)" for k
    unfolding select_pending_def using assms(2) by (rule filter_redact)
  have len: "length (select_pending db k) = length (select_pending db' k)" for k
    using sp [of k] by (rule map_eq_imp_length_eq)
  then have emp: "select_pending db k = [] \<longleftrightarrow> select_pending db' k = []" for k
    by (metis length_0_conv)
  have sc: "fst (score_all jd (select_pending db k) [] db)
      = fst (score_all jd (select_pending db' k) [] db')" for jd k
    using sp [of k] by (rule score_all_redact)
  show ?thesis
    by (simp add: fst_rank sj len emp sc split: option.splits list.splits sum.splits)
qed

theorem rank_output_independent_of_identity_witness:
  "map redact [example_application] =
     map redact
       [example_application\<lparr>email := ''john.roe@example.net'', phone := ''+15550100999'',
          cover_letter := None, file_name := ''john_roe.docx'', file_url := None,
          cv_content := Some (example_cv\<lparr>cv_name := ''John Roe'',
                                          cv_email := ''john.roe@example.net''\<rparr>)\<rparr>]
   \<and> fst (rank example_request
        \<lparr>job_descriptions = [example_job], applications = [example_application],
         audit_logs = []\<rparr>)
     = fst (rank example_request
        \<lparr>job_descriptions = [example_job],
         applications =
           [example_application\<lparr>email := ''john.roe@example.net'', phone := ''+15550100999'',
              cover_letter := None, file_name := ''john_roe.docx'', file_url := None,
              cv_content := Some (example_cv\<lparr>cv_name := ''John Roe'',
                                              cv_email := ''john.roe@example.net''\<rparr>)\<rparr>],
         audit_logs = []\<rparr>)"
proof -
  let ?other = "example_application\<lparr>email := ''john.roe@example.net'', phone := ''+15550100999'',
          cover_letter := None, file_name := ''john_roe.docx'', file_url := None,
          cv_content := Some (example_cv\<lparr>cv_name := ''John Roe'',
                                          cv_email := ''john.roe@example.net''\<rparr>)\<rparr>"
  let ?db = "\<lparr>job_descriptions = [example_job], applications = [example_application],
         audit_logs = []\<rparr>"
  let ?db' = "\<lparr>job_descriptions = [example_job], applications = [?other], audit_logs = []\<rparr>"
  have r: "map redact [example_application] = map redact [?other]"
    by (simp add: redact_def redact_cv_def example_application_fields)
  have j: "job_descriptions ?db = job_descriptions ?db'" by simp
  have a: "map redact (applications ?db) = map redact (applications ?db')"
    using r by simp
  from rank_output_independent_of_identity [OF j a, of example_request] r show ?thesis
    by blast
qed

text \<open>
  As first stated, for every ranking output and with the three fields anonymized id, score
  and explanation only, the property fails: \<open>rankCVs\<close> returns the raw content of each
  CV together with the e-mail address found in it, and the entries of the endpoint carry
  the database id as well.
\<close>

theorem ranking_output_counterexample:
  "map extracted_email
     (rankCVs example_completion
        [\<lparr>filename = ''cv1.txt'',
          content = ''Jane Doe, jane.doe@example.org, JavaScript and SQL''\<rparr>] ''Web developer'')
     = [''jane.doe@example.org'']
   \<and> map content
     (rankCVs example_completion
        [\<lparr>filename = ''cv1.txt'',
          content = ''Jane Doe, jane.doe@example.org, JavaScript and SQL''\<rparr>] ''Web developer'')
     = [''Jane Doe, jane.doe@example.org, JavaScript and SQL'']
   \<and> map ranked_id
     (body_rankedApplications
        (fst (rank example_request
           \<lparr>job_descriptions = [example_job], applications = [example_application],
            audit_logs = []\<rparr>)))
     = [1]"
proof -
  have "map extracted_email
     (rankCVs example_completion
        [\<lparr>filename = ''cv1.txt'',
          content = ''Jane Doe, jane.doe@example.org, JavaScript and SQL''\<rparr>] ''Web developer'')
     = [''jane.doe@example.org'']"
    by code_simp
  moreover have "map content
     (rankCVs example_completion
        [\<lparr>filename = ''cv1.txt'',
          content = ''Jane Doe, jane.doe@example.org, JavaScript and SQL''\<rparr>] ''Web developer'')
     = [''Jane Doe, jane.doe@example.org, JavaScript and SQL'']"
    by code_simp
  moreover have "map ranked_id
     (body_rankedApplications
        (fst (rank example_request
           \<lparr>job_descriptions = [example_job], applications = [example_application],
            audit_logs = []\<rparr>)))
     = [1]"
    by (simp add: example_run)
  ultimately show ?thesis by blast
qed

section \<open>Failures before the scoring\<close>

text \<open>
  C2 (amended). For a non-empty job key, the ranking fails with status 404 and the message
  \<open>Job not found\<close> exactly when no job has the key, whether active or not, and with status
  400 and the message \<open>No pending applications to rank\<close> when the job exists and none of
  its applications is pending and unscored; both failures leave the database as it was.
\<close>

theorem rank_failures:
  assumes "jobKey req = Some k" and "k \<noteq> []"
  shows "((\<forall>j \<in> set (job_descriptions db). jd_job_key j \<noteq> k) \<longrightarrow>
            rank req db = (ErrorResponse 404 ''Job not found'', db))
     \<and> ((\<exists>j \<in> set (job_descriptions db). jd_job_key j = k) \<longrightarrow>
            fst (rank req db) \<noteq> ErrorResponse 404 ''Job not found'')
     \<and> ((\<exists>j \<in> set (job_descriptions db). jd_job_key j = k)
          \<and> (\<forall>a \<in> set (applications db). \<not> pending_unscored k a) \<longrightarrow>
            rank req db = (ErrorResponse 400 ''No pending applications to rank'', db))"
proof -
  have 1: "rank req db = (ErrorResponse 404 ''Job not found'', db)"
    if "\<forall>j \<in> set (job_descriptions db). jd_job_key j \<noteq> k"
  proof -
    from that have "select_job db k = []" by (simp add: select_job_empty_iff)
    with assms show ?thesis by (simp add: rank_def)
  qed
  have 2: "fst (rank req db) \<noteq> ErrorResponse 404 ''Job not found''"
    if "\<exists>j \<in> set (job_descriptions db). jd_job_key j = k"
  proof -
    from that have "select_job db k \<noteq> []" by (simp add: select_job_empty_iff)
    then obtain jd js where "select_job db k = jd # js" by (cases "select_job db k") auto
    with assms show ?thesis
      by (auto simp: rank_def Let_def split: prod.splits sum.splits)
  qed
  have 3: "rank req db = (ErrorResponse 400 ''No pending applications to rank'', db)"
    if "\<exists>j \<in> set (job_descriptions db). jd_job_key j = k"
      and "\<forall>a \<in> set (applications db). \<not> pending_unscored k a"
  proof -
    from that(1) have "select_job db k \<noteq> []" by (simp add: select_job_empty_iff)
    then obtain jd js where "select_job db k = jd # js" by (cases "select_job db k") auto
    moreover from that(2) have "select_pending db k = []" by (simp add: select_pending_empty_iff)
    ultimately show ?thesis using assms by (simp add: rank_def)
  qed
  from 1 2 3 show ?thesis by blast
qed

theorem rank_failures_witness:
  "rank example_request
      \<lparr>job_descriptions = [], applications = [example_application], audit_logs = []\<rparr>
     = (ErrorResponse 404 ''Job not found'',
        \<lparr>job_descriptions = [], applications = [example_application], audit_logs = []\<rparr>)
   \<and> rank example_request
      \<lparr>job_descriptions = [example_job\<lparr>is_active := False\<rparr>],
       applications = [example_application\<lparr>ai_score := Some 72\<rparr>], audit_logs = []\<rparr>
     = (ErrorResponse 400 ''No pending applications to rank'',
        \<lparr>job_descriptions = [example_job\<lparr>is_active := False\<rparr>],
         applications = [example_application\<lparr>ai_score := Some 72\<rparr>], audit_logs = []\<rparr>)"
proof -
  let ?db1 = "\<lparr>job_descriptions = [], applications = [example_application], audit_logs = []\<rparr>"
  let ?db2 = "\<lparr>job_descriptions = [example_job\<lparr>is_active := False\<rparr>],
       applications = [example_application\<lparr>ai_score := Some 72\<rparr>], audit_logs = []\<rparr>"
  have k: "jobKey example_request = Some ''web-developer''" "''web-developer'' \<noteq> []"
    by (simp_all add: example_request_fields)
  have 1: "\<forall>j \<in> set (job_descriptions ?db1). jd_job_key j \<noteq> ''web-developer''" by simp
  have 2: "\<exists>j \<in> set (job_descriptions ?db2). jd_job_key j = ''web-developer''"
    by (simp add: example_job_fields)
  have 3: "\<forall>a \<in> set (applications ?db2). \<not> pending_unscored ''web-developer'' a"
    by (simp add: pending_unscored_def)
  from rank_failures [OF k, of ?db1] 1 rank_failures [OF k, of ?db2] 2 3 show ?thesis
    by blast
qed

text \<open>
  The query for the job does not read \<open>is_active\<close>: an inactive job with a pending
  application is ranked, and the score is stored.
\<close>

theorem rank_failures_counterexample:
  "fst (rank example_request
      \<lparr>job_descriptions = [example_job\<lparr>is_active := False\<rparr>],
       applications = [example_application], audit_logs = []\<rparr>)
     = RankResponse
         [\<lparr>ranked_id = 1, ranked_anonymized_id = ''APP_K3X9QZ'', ranked_score = 72,
           ranked_explanation = join [CHR 0x0A]
            [check_mark @ '' Excellent relevant experience: 6 years with strong background in required areas'',
             check_mark @ '' 2 matching skill(s): JavaScript, SQL'',
             check_mark @ '' Holds a Master's degree'',
             check_mark @ '' 4 notable achievement(s)'']\<rparr>]
         ''1 applications ranked successfully''
   \<and> map ai_score (applications (snd (rank example_request
      \<lparr>job_descriptions = [example_job\<lparr>is_active := False\<rparr>],
       applications = [example_application], audit_logs = []\<rparr>)))
     = [Some 72]"
proof -
  have a: "analyzeApplication (Some example_cv) (example_job\<lparr>is_active := False\<rparr>) =
     Inr \<lparr>score = 72,
          explanation = join [CHR 0x0A]
            [check_mark @ '' Excellent relevant experience: 6 years with strong background in required areas'',
             check_mark @ '' 2 matching skill(s): JavaScript, SQL'',
             check_mark @ '' Holds a Master's degree'',
             check_mark @ '' 4 notable achievement(s)'']\<rparr>"
    by code_simp
  show ?thesis by (simp add: example_run a)
qed

section \<open>Ranking twice\<close>

text \<open>
  C3. The ranking scores only applications that are pending and unscored: every other row,
  so every row that has a score, is left as it is, and the entries returned are those of
  the selected rows. After a ranking that succeeded, a second ranking of the same job finds
  nothing to score: it answers \<open>No pending applications to rank\<close> and changes nothing.
  The ids of the rows are distinct, \<open>id\<close> being the primary key.
\<close>

theorem rank_idempotent:
  assumes "distinct (map app_id (applications db))" and "jobKey req = Some k"
  shows "length (applications (snd (rank req db))) = length (applications db)
     \<and> (\<forall>i < length (applications db). \<not> pending_unscored k (applications db ! i) \<longrightarrow>
           applications (snd (rank req db)) ! i = applications db ! i)
     \<and> (\<forall>rs msg. fst (rank req db) = RankResponse rs msg \<longrightarrow>
           set (map ranked_id rs) = app_id ` set (select_pending db k)
         \<and> rank req (snd (rank req db)) =
             (ErrorResponse 400 ''No pending applications to rank'', snd (rank req db)))"
proof -
  let ?sel = "select_pending db k"
  let ?tw = "takeWhile (\<lambda>b. cv_content b \<noteq> None) ?sel"
  let ?rows' = "map (\<lambda>r. if r \<in> set ?tw then scored_row jd r else r) (applications db)"
  have d: "distinct (applications db)" using assms(1) by (rule distinct_rows)
  have sdb: "snd (score_all jd ?sel acc db) =
      db\<lparr>applications := map (\<lambda>r. if r \<in> set ?tw then scored_row jd r else r) (applications db)\<rparr>"
    for jd acc
    by (rule score_all_database [OF assms(1) select_pending_rows(1) select_pending_rows(2) [OF d]])
  have rows: "\<exists>jd S. S \<subseteq> set ?sel \<and>
      applications (snd (rank req db)) = map (\<lambda>r. if r \<in> S then scored_row jd r else r) (applications db)"
  proof (cases "k \<noteq> [] \<and> select_job db k \<noteq> [] \<and> ?sel \<noteq> []")
    case False
    then have "snd (rank req db) = db"
      using assms(2) by (auto simp: rank_def split: list.splits)
    then have "{} \<subseteq> set ?sel \<and>
      applications (snd (rank req db)) = map (\<lambda>r. if r \<in> {} then scored_row undefined r else r) (applications db)"
      by simp
    then show ?thesis by blast
  next
    case True
    then obtain jd js where jd: "select_job db k = jd # js" by (cases "select_job db k") auto
    from True have "k \<noteq> []" "?sel \<noteq> []" by simp_all
    from rank_scoring [OF assms(2) this(1) jd this(2)]
    have "applications (snd (rank req db)) = applications (snd (score_all jd ?sel [] db))"
      by (auto simp: logAuditEvent_def split: prod.splits sum.splits)
    then have "set ?tw \<subseteq> set ?sel \<and> applications (snd (rank req db)) =
        map (\<lambda>r. if r \<in> set ?tw then scored_row jd r else r) (applications db)"
      by (auto simp: sdb dest: set_takeWhileD)
    then show ?thesis by blast
  qed
  then obtain jd0 S where S: "S \<subseteq> set ?sel"
    and rows': "applications (snd (rank req db)) = map (\<lambda>r. if r \<in> S then scored_row jd0 r else r) (applications db)"
    by blast
  have 1: "length (applications (snd (rank req db))) = length (applications db)"
    by (simp add: rows')
  have 2: "applications (snd (rank req db)) ! i = applications db ! i"
    if "i < length (applications db)" "\<not> pending_unscored k (applications db ! i)" for i
  proof -
    from that(2) have "applications db ! i \<notin> set ?sel" by (simp add: select_pending_def)
    with S have "applications db ! i \<notin> S" by blast
    with that(1) show ?thesis by (simp add: rows')
  qed
  have 3: "set (map ranked_id rs) = app_id ` set ?sel
         \<and> rank req (snd (rank req db)) =
             (ErrorResponse 400 ''No pending applications to rank'', snd (rank req db))"
    if "fst (rank req db) = RankResponse rs msg" for rs msg
  proof -
    from that obtain k' jd js es db' where k': "jobKey req = Some k'" and ne: "k' \<noteq> []"
      and jd: "select_job db k' = jd # js"
      and sc: "score_all jd (select_pending db k') [] db = (Inr es, db')"
      and rs: "rs = sort_by_score es"
      and out: "snd (rank req db) = logAuditEvent (userId req) ''AI_RANK'' ''applications'' None
            [(''jobKey'', k'), (''applicationsCount'', decimal (length (select_pending db k')))]
            (ip req) db'"
      by (rule rank_success_cases)
    from k' assms(2) have kk: "k' = k" by simp
    from sc have f: "fst (score_all jd ?sel [] db) = Inr es" by (simp add: kk)
    from score_all_entries [OF f] have ids: "map ranked_id es = map app_id ?sel" by simp
    have "set (map ranked_id rs) = set (map ranked_id es)"
      by (simp add: rs sort_by_score_def)
    with ids have a: "set (map ranked_id rs) = app_id ` set ?sel" by simp
    have ok: "\<forall>b \<in> set ?sel. cv_content b \<noteq> None"
    proof (rule ccontr)
      assume "\<not> (\<forall>b \<in> set ?sel. cv_content b \<noteq> None)"
      then have "\<exists>b \<in> set ?sel. cv_content b = None" by auto
      from score_all_fails [OF this] f show False by simp
    qed
    then have tw: "?tw = ?sel" by (rule takeWhile_all)
    from sc have "db' = snd (score_all jd ?sel [] db)" by (simp add: kk)
    then have db': "db' = db\<lparr>applications := map (\<lambda>r. if r \<in> set ?sel then scored_row jd r else r) (applications db)\<rparr>"
      by (simp only: sdb tw)
    let ?out = "snd (rank req db)"
    have jobs: "select_job ?out k = jd # js"
      using jd by (simp add: out db' kk select_job_def logAuditEvent_def)
    have "\<not> pending_unscored k x" if "x \<in> set (applications ?out)" for x
    proof -
      from that obtain r where r: "r \<in> set (applications db)"
        and x: "x = (if r \<in> set ?sel then scored_row jd r else r)"
        by (auto simp: out db' logAuditEvent_def)
      show ?thesis
      proof (cases "r \<in> set ?sel")
        case True
        with ok have "cv_content r \<noteq> None" by blast
        with x True show ?thesis by (simp add: pending_scored_row)
      next
        case False
        with r x show ?thesis by (simp add: select_pending_def)
      qed
    qed
    then have "select_pending ?out k = []" by (simp add: select_pending_empty_iff)
    with jobs assms(2) ne kk
    have "rank req ?out = (ErrorResponse 400 ''No pending applications to rank'', ?out)"
      by (simp add: rank_def)
    with a show ?thesis by simp
  qed
  from 1 2 3 show ?thesis by blast
qed

theorem rank_idempotent_witness:
  "applications (snd (rank example_request
      \<lparr>job_descriptions = [example_job],
       applications = [example_application,
                       example_application\<lparr>email := ''john.roe@example.net'', anonymized_id := ''APP_7QW2MB'',
                         app_id := 2, ai_score := Some 50,
                                            ai_explanation := Some ''scored before''\<rparr>],
       audit_logs = []\<rparr>)) ! 1
     = example_application\<lparr>email := ''john.roe@example.net'', anonymized_id := ''APP_7QW2MB'',
                         app_id := 2, ai_score := Some 50,
                            ai_explanation := Some ''scored before''\<rparr>
   \<and> rank example_request (snd (rank example_request
      \<lparr>job_descriptions = [example_job],
       applications = [example_application,
                       example_application\<lparr>email := ''john.roe@example.net'', anonymized_id := ''APP_7QW2MB'',
                         app_id := 2, ai_score := Some 50,
                                            ai_explanation := Some ''scored before''\<rparr>],
       audit_logs = []\<rparr>))
     = (ErrorResponse 400 ''No pending applications to rank'',
        snd (rank example_request
      \<lparr>job_descriptions = [example_job],
       applications = [example_application,
                       example_application\<lparr>email := ''john.roe@example.net'', anonymized_id := ''APP_7QW2MB'',
                         app_id := 2, ai_score := Some 50,
                                            ai_explanation := Some ''scored before''\<rparr>],
       audit_logs = []\<rparr>))"
proof -
  let ?old = "example_application\<lparr>email := ''john.roe@example.net'', anonymized_id := ''APP_7QW2MB'',
                         app_id := 2, ai_score := Some 50,
                                  ai_explanation := Some ''scored before''\<rparr>"
  let ?db = "\<lparr>job_descriptions = [example_job],
       applications = [example_application, ?old], audit_logs = []\<rparr>"
  have d: "distinct (map app_id (applications ?db))"
    by (simp add: example_application_fields)
  have k: "jobKey example_request = Some ''web-developer''"
    by (simp add: example_request_fields)
  have i: "1 < length (applications ?db)" by simp
  have n: "\<not> pending_unscored ''web-developer'' (applications ?db ! 1)"
    by (simp add: pending_unscored_def)
  obtain rs msg where s: "fst (rank example_request ?db) = RankResponse rs msg"
    by (simp add: example_run)
  from rank_idempotent [OF d k] i n s show ?thesis by auto
qed

section \<open>An evaluation error during the ranking\<close>

text \<open>
  C4 (amended). An evaluation error for one candidate ends the ranking: the response is the
  single error \<open>Failed to rank applications\<close> with status 500, the candidates scored before
  the failing one keep their stored scores, and the failing candidate and those after it
  are unchanged, pending and unscored, so a later ranking selects them again.
\<close>

theorem rank_aborts_on_evaluation_error:
  assumes "distinct (map app_id (applications db))"
    and "jobKey req = Some k" and "k \<noteq> []"
    and "select_job db k = jd # js"
    and "select_pending db k = pre @ a # post"
    and "\<forall>b \<in> set pre. cv_content b \<noteq> None" and "cv_content a = None"
  shows "rank req db =
      (ErrorResponse 500 ''Failed to rank applications'',
       db\<lparr>applications := map (\<lambda>r. if r \<in> set pre then scored_row jd r else r) (applications db)\<rparr>)
    \<and> set (a # post) \<subseteq> set (select_pending (snd (rank req db)) k)"
proof -
  let ?sel = "select_pending db k"
  let ?db' = "db\<lparr>applications := map (\<lambda>r. if r \<in> set pre then scored_row jd r else r) (applications db)\<rparr>"
  have ne: "?sel \<noteq> []" using assms(5) by simp
  have d: "distinct (applications db)" using assms(1) by (rule distinct_rows)
  have tw: "takeWhile (\<lambda>b. cv_content b \<noteq> None) ?sel = pre"
    unfolding assms(5) using assms(6,7) by (simp add: takeWhile_first)
  have s1: "set ?sel \<subseteq> set (applications db)" by (rule select_pending_rows(1))
  have s2: "distinct ?sel" using d by (rule select_pending_rows(2))
  have "snd (score_all jd ?sel [] db) =
      db\<lparr>applications :=
          map (\<lambda>r. if r \<in> set (takeWhile (\<lambda>b. cv_content b \<noteq> None) ?sel) then scored_row jd r else r)
            (applications db)\<rparr>"
    by (rule score_all_database [OF assms(1) s1 s2])
  then have "snd (score_all jd ?sel [] db) = ?db'"
    by (simp only: tw)
  moreover have "fst (score_all jd ?sel [] db) = Inl TypeError"
    by (rule score_all_fails) (use assms(5,7) in auto)
  ultimately have "score_all jd ?sel [] db = (Inl TypeError, ?db')"
    by (metis prod.collapse)
  then have r: "rank req db = (ErrorResponse 500 ''Failed to rank applications'', ?db')"
    using rank_scoring [OF assms(2,3,4) ne] by simp
  have "x \<in> set (select_pending ?db' k)" if x: "x \<in> set (a # post)" for x
  proof -
    from x have xs: "x \<in> set ?sel" using assms(5) by auto
    then have xr: "x \<in> set (applications db)" and xp: "pending_unscored k x"
      by (auto simp: select_pending_def)
    have "distinct ?sel" using d by (rule select_pending_rows(2))
    then have "x \<notin> set pre" using x unfolding assms(5) by auto
    with xr have "x \<in> set (applications ?db')" by force
    with xp show ?thesis by (simp add: select_pending_def)
  qed
  with r show ?thesis by auto
qed

theorem rank_aborts_on_evaluation_error_witness:
  "rank example_request
      \<lparr>job_descriptions = [example_job],
       applications = [example_application,
                       example_application\<lparr>email := ''john.roe@example.net'', anonymized_id := ''APP_7QW2MB'',
                         app_id := 2, cv_content := None\<rparr>,
                       example_application\<lparr>email := ''mary.major@example.com'', anonymized_id := ''APP_M4T8ZD'',
                         app_id := 3\<rparr>],
       audit_logs = []\<rparr>
     = (ErrorResponse 500 ''Failed to rank applications'',
        \<lparr>job_descriptions = [example_job],
         applications = [scored_row example_job example_application,
                         example_application\<lparr>email := ''john.roe@example.net'', anonymized_id := ''APP_7QW2MB'',
                         app_id := 2, cv_content := None\<rparr>,
                         example_application\<lparr>email := ''mary.major@example.com'', anonymized_id := ''APP_M4T8ZD'',
                         app_id := 3\<rparr>],
         audit_logs = []\<rparr>)"
proof -
  let ?a2 = "example_application\<lparr>email := ''john.roe@example.net'', anonymized_id := ''APP_7QW2MB'',
                         app_id := 2, cv_content := None\<rparr>"
  let ?a3 = "example_application\<lparr>email := ''mary.major@example.com'', anonymized_id := ''APP_M4T8ZD'',
                         app_id := 3\<rparr>"
  let ?db = "\<lparr>job_descriptions = [example_job],
       applications = [example_application, ?a2, ?a3], audit_logs = []\<rparr>"
  have d: "distinct (map app_id (applications ?db))"
    by (simp add: example_application_fields)
  have k: "jobKey example_request = Some ''web-developer''" "''web-developer'' \<noteq> []"
    by (simp_all add: example_request_fields)
  have j: "select_job ?db ''web-developer'' = example_job # []"
    by (simp add: select_job_def example_job_fields)
  have p: "select_pending ?db ''web-developer'' = [example_application] @ ?a2 # [?a3]"
    by (simp add: select_pending_def pending_unscored_def example_application_fields)
  have ok: "\<forall>b \<in> set [example_application]. cv_content b \<noteq> None"
    by (simp add: example_application_fields)
  have bad: "cv_content ?a2 = None" by simp
  have ne: "?a2 \<noteq> example_application" "?a3 \<noteq> example_application"
  proof -
    have "app_id ?a2 \<noteq> app_id example_application" "app_id ?a3 \<noteq> app_id example_application"
      by (simp_all add: example_application_fields)
    then show "?a2 \<noteq> example_application" "?a3 \<noteq> example_application"
      by fastforce+
  qed
  from rank_aborts_on_evaluation_error [OF d k j p ok bad] ne show ?thesis
    by simp
qed

text \<open>
  The batch is not continued past the failing candidate and no entry is returned: of three
  pending applications whose second has no CV content, the first is scored and stored, the
  third is not scored, and the response is the error.
\<close>

theorem rank_aborts_counterexample:
  "fst (rank example_request
      \<lparr>job_descriptions = [example_job],
       applications = [example_application,
                       example_application\<lparr>email := ''john.roe@example.net'', anonymized_id := ''APP_7QW2MB'',
                         app_id := 2, cv_content := None\<rparr>,
                       example_application\<lparr>email := ''mary.major@example.com'', anonymized_id := ''APP_M4T8ZD'',
                         app_id := 3\<rparr>],
       audit_logs = []\<rparr>)
     = ErrorResponse 500 ''Failed to rank applications''
   \<and> map ai_score (applications (snd (rank example_request
      \<lparr>job_descriptions = [example_job],
       applications = [example_application,
                       example_application\<lparr>email := ''john.roe@example.net'', anonymized_id := ''APP_7QW2MB'',
                         app_id := 2, cv_content := None\<rparr>,
                       example_application\<lparr>email := ''mary.major@example.com'', anonymized_id := ''APP_M4T8ZD'',
                         app_id := 3\<rparr>],
       audit_logs = []\<rparr>)))
     = [Some 72, None, None]"
  by (simp add: example_run)

section \<open>The order of the ranking\<close>

text \<open>
  C9 (amended). The ranking returned is sorted by decreasing score, and of two candidates
  with equal scores the one that ranks first is the one whose row the query for the pending
  applications returned first: the sort is stable on the order of the query result, which
  requests no order by submission time.
\<close>

theorem ranking_order:
  assumes "fst (rank req db) = RankResponse rs msg" and "jobKey req = Some k"
  shows "sorted_wrt (\<lambda>x y. ranked_score x \<ge> ranked_score y) rs
     \<and> (\<forall>xs x ys y zs. rs = xs @ x # ys @ y # zs \<and> ranked_score x = ranked_score y \<longrightarrow>
          (\<exists>xs' ys' zs'. map app_id (select_pending db k) = xs' @ ranked_id x # ys' @ ranked_id y # zs'))"
proof -
  from assms(1) obtain k' jd js es db' where k': "jobKey req = Some k'"
    and sc: "score_all jd (select_pending db k') [] db = (Inr es, db')"
    and rs: "rs = sort_by_score es"
    by (rule rank_success_cases)
  from k' assms(2) have [simp]: "k' = k" by simp
  from sc have "fst (score_all jd (select_pending db k) [] db) = Inr es" by simp
  from score_all_entries [OF this] have ids: "map ranked_id es = map app_id (select_pending db k)"
    by simp
  have "sorted (map (\<lambda>r. - ranked_score r) rs)"
    unfolding rs sort_by_score_def by (rule sorted_sort_key)
  then have 1: "sorted_wrt (\<lambda>x y. ranked_score x \<ge> ranked_score y) rs"
    by (simp add: sorted_map)
  have 2: "\<exists>xs' ys' zs'. map app_id (select_pending db k) = xs' @ ranked_id x # ys' @ ranked_id y # zs'"
    if "rs = xs @ x # ys @ y # zs" "ranked_score x = ranked_score y" for xs x ys y zs
  proof -
    from that have "sort_key (\<lambda>r. - ranked_score r) es = xs @ x # ys @ y # zs"
      and "- ranked_score x = - ranked_score y"
      by (simp_all add: rs sort_by_score_def)
    from stable_sort_pairs [OF this] obtain us vs ws where "es = us @ x # vs @ y # ws" by blast
    then have "map ranked_id es = map ranked_id us @ ranked_id x # map ranked_id vs @ ranked_id y # map ranked_id ws"
      by simp
    with ids show ?thesis by metis
  qed
  from 1 2 show ?thesis by blast
qed

theorem ranking_order_witness:
  "sorted_wrt (\<lambda>x y. ranked_score x \<ge> ranked_score y)
     (body_rankedApplications
        (fst (rank example_request
           \<lparr>job_descriptions = [example_job],
            applications = [example_application\<lparr>email := ''john.roe@example.net'', anonymized_id := ''APP_7QW2MB'',
                         app_id := 2, cv_content := Some (example_cv\<lparr>experience := None\<rparr>)\<rparr>,
                            example_application],
            audit_logs = []\<rparr>)))
   \<and> map ranked_id
     (body_rankedApplications
        (fst (rank example_request
           \<lparr>job_descriptions = [example_job],
            applications = [example_application\<lparr>email := ''john.roe@example.net'', anonymized_id := ''APP_7QW2MB'',
                         app_id := 2, cv_content := Some (example_cv\<lparr>experience := None\<rparr>)\<rparr>,
                            example_application],
            audit_logs = []\<rparr>)))
     = [1, 2]"
proof -
  let ?db = "\<lparr>job_descriptions = [example_job],
            applications = [example_application\<lparr>email := ''john.roe@example.net'', anonymized_id := ''APP_7QW2MB'',
                         app_id := 2, cv_content := Some (example_cv\<lparr>experience := None\<rparr>)\<rparr>,
                            example_application],
            audit_logs = []\<rparr>"
  have low: "map_sum id score (analyzeApplication (Some (example_cv\<lparr>experience := None\<rparr>)) example_job) = Inr 57"
    by code_simp
  then obtain an where an: "analyzeApplication (Some (example_cv\<lparr>experience := None\<rparr>)) example_job = Inr an"
    and sc: "score an = 57"
    by (cases "analyzeApplication (Some (example_cv\<lparr>experience := None\<rparr>)) example_job") auto
  have k: "jobKey example_request = Some ''web-developer''"
    by (simp add: example_request_fields)
  have ids: "map ranked_id (body_rankedApplications (fst (rank example_request ?db))) = [1, 2]"
    by (simp add: example_run an sc)
  obtain rs msg where s: "fst (rank example_request ?db) = RankResponse rs msg"
    by (simp add: example_run an)
  from ranking_order [OF s k] s ids show ?thesis by simp
qed

text \<open>
  When the query returns the later submission first, the later submission ranks first among
  equal scores.
\<close>

theorem ranking_order_counterexample:
  "map ranked_id
     (body_rankedApplications
        (fst (rank example_request
           \<lparr>job_descriptions = [example_job],
            applications = [example_application\<lparr>email := ''john.roe@example.net'', anonymized_id := ''APP_7QW2MB'',
                         app_id := 2, submitted_at := 200\<rparr>,
                            example_application\<lparr>app_id := 1, submitted_at := 100\<rparr>],
            audit_logs = []\<rparr>)))
     = [2, 1]
   \<and> map ranked_score
     (body_rankedApplications
        (fst (rank example_request
           \<lparr>job_descriptions = [example_job],
            applications = [example_application\<lparr>email := ''john.roe@example.net'', anonymized_id := ''APP_7QW2MB'',
                         app_id := 2, submitted_at := 200\<rparr>,
                            example_application\<lparr>app_id := 1, submitted_at := 100\<rparr>],
            audit_logs = []\<rparr>)))
     = [72, 72]"
  by (simp add: example_run)

end
